theory Spec2Isabelle
  imports Main "HOL-Library.Word"
begin

section \<open>JavaScript values\<close>

text \<open>
  The request bodies, the query string and the payloads of the two external services are
  JSON-like JavaScript values. An object is an association list of its own properties
  (looked up with \<open>map_of\<close>); a number is an integer, which is all the code below
  distinguishes (zero or not).
\<close>

datatype jsval =
    JUndefined
  | JNull
  | JBool bool
  | JNum int
  | JStr string
  | JArr "jsval list"
  | JObj "(string \<times> jsval) list"

datatype error = TypeError | QueryError | RequestError

text \<open>The truth value of \<open>x\<close> in \<open>if (x)\<close>, \<open>!x\<close>, \<open>x || y\<close> and \<open>x && y\<close>.\<close>

fun truthy :: "jsval \<Rightarrow> bool" where
  "truthy JUndefined = False"
| "truthy JNull = False"
| "truthy (JBool b) = b"
| "truthy (JNum n) = (n \<noteq> 0)"
| "truthy (JStr s) = (s \<noteq> [])"
| "truthy (JArr xs) = True"
| "truthy (JObj fs) = True"

text \<open>
  Reading a property of an object that was destructured from a parsed body:
  \<open>const { k } = body\<close>. A property that is not there reads as \<open>undefined\<close>.
\<close>

definition field :: "(string \<times> jsval) list \<Rightarrow> string \<Rightarrow> jsval" where
  "field body k = (case map_of body k of None \<Rightarrow> JUndefined | Some v \<Rightarrow> v)"

text \<open>
  \<open>v.k\<close> for the property names the code reads (\<open>choices\<close>, \<open>message\<close>,
  \<open>content\<close>, \<open>textResponse\<close>, \<open>audioData\<close>), none of which a string, a number,
  a boolean or an array has of its own: reading them there gives \<open>undefined\<close>, and
  reading any property of \<open>undefined\<close> or \<open>null\<close> throws a TypeError.
\<close>

fun get_prop :: "jsval \<Rightarrow> string \<Rightarrow> error + jsval" where
  "get_prop JUndefined k = Inl TypeError"
| "get_prop JNull k = Inl TypeError"
| "get_prop (JObj fs) k = Inr (field fs k)"
| "get_prop v k = Inr JUndefined"

text \<open>\<open>v[0]\<close>.\<close>

fun index0 :: "jsval \<Rightarrow> error + jsval" where
  "index0 JUndefined = Inl TypeError"
| "index0 JNull = Inl TypeError"
| "index0 (JArr xs) = Inr (case xs of [] \<Rightarrow> JUndefined | x # _ \<Rightarrow> x)"
| "index0 (JStr s) = Inr (case s of [] \<Rightarrow> JUndefined | c # _ \<Rightarrow> JStr [c])"
| "index0 (JObj fs) = Inr (field fs ''0'')"
| "index0 v = Inr JUndefined"

text \<open>
  The spread \<open>...v\<close> inside an array literal: the elements of an array, the characters of
  a string, and a TypeError for everything that is not iterable.
\<close>

fun spread :: "jsval \<Rightarrow> error + jsval list" where
  "spread (JArr xs) = Inr xs"
| "spread (JStr s) = Inr (map (\<lambda>c. JStr [c]) s)"
| "spread v = Inl TypeError"

text \<open>The object literal \<open>{ role: r, content: c }\<close>.\<close>

definition message :: "string \<Rightarrow> jsval \<Rightarrow> jsval" where
  "message r c = JObj [(''role'', JStr r), (''content'', c)]"

section \<open>Base64\<close>

type_synonym byte = "8 word"

definition alphabet :: string where
  "alphabet = ''ABCDEFGHIJKLMNOPQRSTUVWXYZabcdefghijklmnopqrstuvwxyz0123456789+/''"

definition sextet :: "nat \<Rightarrow> char" where
  "sextet n = alphabet ! (n mod 64)"

text \<open>\<open>Buffer.from(bytes).toString('base64')\<close>: three bytes give four characters, the
  last group is padded with \<open>=\<close>.\<close>

fun base64 :: "byte list \<Rightarrow> string" where
  "base64 (a # b # c # rest) =
     (let n = unat a * 65536 + unat b * 256 + unat c
      in [sextet (n div 262144), sextet (n div 4096), sextet (n div 64), sextet n] @ base64 rest)"
| "base64 [a, b] =
     (let n = unat a * 65536 + unat b * 256
      in [sextet (n div 262144), sextet (n div 4096), sextet (n div 64), CHR ''='']) "
| "base64 [a] =
     (let n = unat a * 65536
      in [sextet (n div 262144), sextet (n div 4096), CHR ''='', CHR ''=''])"
| "base64 [] = []"

section \<open>The prospects table\<close>

text \<open>
  \<^verbatim>\<open>CREATE TABLE IF NOT EXISTS prospects (id SERIAL PRIMARY KEY, name TEXT NOT NULL,
  system_prompt TEXT NOT NULL, unique_id TEXT NOT NULL UNIQUE)\<close>.
  The table is the list of its rows in the order of their insertion, together with the
  last value handed out by the sequence behind \<open>id\<close>.
\<close>

record prospect_row =
  row_id :: int
  name :: string
  system_prompt :: string
  unique_id :: string

record pool =
  prospects :: "prospect_row list"
  prospects_id_seq :: int

definition created_table :: pool where
  "created_table = \<lparr>prospects = [], prospects_id_seq = 0\<rparr>"

datatype sql = SelectProspect | SelectAllProspects | InsertProspect | SelectSystemPrompt

datatype call =
    PoolQuery sql "jsval list"
  | OpenRouterPost string "jsval list"
  | ElevenLabsPost jsval

text \<open>
  What lies outside the process while one request is handled: the environment
  variables, whether the one query of the request is rejected by the database
  (connection refused, relation missing, parameter refused), the text the driver sends
  for a parameter that is neither a string nor null, the identifier \<open>uuidv4()\<close> returns,
  and the answers of the two external services (\<open>Inl\<close>: the axios call rejects;
  \<open>Inr\<close>: the response data).
\<close>

record env =
  OPENROUTER_MODEL_NAME :: "string option"
  ADMIN_USERNAME :: "string option"
  ADMIN_PASSWORD :: "string option"
  query_rejected :: bool
  driver_text :: "jsval \<Rightarrow> string"
  uuidv4 :: string
  openrouter :: "string \<Rightarrow> jsval list \<Rightarrow> error + jsval"
  elevenlabs :: "jsval \<Rightarrow> error + byte list"

text \<open>A query parameter as the driver sends it: \<open>undefined\<close> and \<open>null\<close> are SQL NULL,
  a string is itself.\<close>

fun prepareValue :: "env \<Rightarrow> jsval \<Rightarrow> string option" where
  "prepareValue e JUndefined = None"
| "prepareValue e JNull = None"
| "prepareValue e (JStr s) = Some s"
| "prepareValue e v = Some (driver_text e v)"

text \<open>\<^verbatim>\<open>... FROM prospects WHERE unique_id = $1\<close>: no row equals NULL.\<close>

definition where_unique_id :: "env \<Rightarrow> pool \<Rightarrow> jsval \<Rightarrow> prospect_row list" where
  "where_unique_id e p v =
     (case prepareValue e v of
        None \<Rightarrow> []
      | Some s \<Rightarrow> filter (\<lambda>r. unique_id r = s) (prospects p))"

definition select_prospect :: "env \<Rightarrow> pool \<Rightarrow> jsval \<Rightarrow> error + prospect_row list" where
  "select_prospect e p v =
     (if query_rejected e then Inl QueryError else Inr (where_unique_id e p v))"

definition select_system_prompt :: "env \<Rightarrow> pool \<Rightarrow> jsval \<Rightarrow> error + string list" where
  "select_system_prompt e p v =
     (if query_rejected e then Inl QueryError
      else Inr (map system_prompt (where_unique_id e p v)))"

text \<open>\<^verbatim>\<open>SELECT * FROM prospects ORDER BY id DESC\<close>; \<open>id\<close> is the primary key, so no two
  rows tie.\<close>

definition select_all_prospects :: "env \<Rightarrow> pool \<Rightarrow> error + prospect_row list" where
  "select_all_prospects e p =
     (if query_rejected e then Inl QueryError
      else Inr (rev (sort_key row_id (prospects p))))"

text \<open>
  \<^verbatim>\<open>INSERT INTO prospects (name, system_prompt, unique_id) VALUES ($1, $2, $3)\<close>.
  The \<open>id\<close> is the next value of the sequence, which stays consumed when the row is then
  refused (a NULL in a NOT NULL column, a duplicate key); the sequence of a SERIAL
  column ends at \<open>2147483647\<close>.
\<close>

definition insert_prospect ::
  "env \<Rightarrow> pool \<Rightarrow> jsval \<Rightarrow> jsval \<Rightarrow> jsval \<Rightarrow> pool \<times> (error + unit)" where
  "insert_prospect e p n s u =
     (if query_rejected e then (p, Inl QueryError)
      else if prospects_id_seq p + 1 > 2147483647 then (p, Inl QueryError)
      else
        let i = prospects_id_seq p + 1; p' = p\<lparr>prospects_id_seq := i\<rparr>
        in case (prepareValue e n, prepareValue e s, prepareValue e u) of
             (Some n', Some s', Some u') \<Rightarrow>
               if i \<in> set (map row_id (prospects p)) \<or> u' \<in> set (map unique_id (prospects p))
               then (p', Inl QueryError)
               else (p'\<lparr>prospects := prospects p @
                        [\<lparr>row_id = i, name = n', system_prompt = s', unique_id = u'\<rparr>]\<rparr>,
                     Inr ())
           | _ \<Rightarrow> (p', Inl QueryError))"

section \<open>The server's routes\<close>

datatype response =
    Send nat string
  | Json nat "(string \<times> jsval) list"
  | RenderDemo string string
  | RenderAdminDashboard "prospect_row list" string
  | Redirect string

subsection \<open>\<^verbatim>\<open>POST /chat\<close>\<close>

text \<open>\<open>process.env.OPENROUTER_MODEL_NAME || 'google/gemini-pro'\<close>.\<close>

definition model_name :: "env \<Rightarrow> string" where
  "model_name e =
     (case OPENROUTER_MODEL_NAME e of
        None \<Rightarrow> ''google/gemini-pro''
      | Some m \<Rightarrow> if m = [] then ''google/gemini-pro'' else m)"

text \<open>\<open>llmResponse.data.choices[0].message.content\<close>.\<close>

definition llm_content :: "jsval \<Rightarrow> error + jsval" where
  "llm_content d =
     (case get_prop d ''choices'' of
        Inl x \<Rightarrow> Inl x
      | Inr cs \<Rightarrow>
          (case index0 cs of
             Inl x \<Rightarrow> Inl x
           | Inr c \<Rightarrow>
               (case get_prop c ''message'' of
                  Inl x \<Rightarrow> Inl x
                | Inr m \<Rightarrow> get_prop m ''content'')))"

definition failed_response :: response where
  "failed_response = Json 500 [(''error'', JStr ''Failed to get AI response'')]"

text \<open>
  The handler returns its response and the calls it made, in order: the query on the
  pool and the two posts to the external services. Every exception thrown inside the
  \<open>try\<close> block ends in the one \<open>catch\<close>, which answers \<open>failed_response\<close>.
\<close>

definition chat :: "env \<Rightarrow> pool \<Rightarrow> (string \<times> jsval) list \<Rightarrow> response \<times> call list" where
  "chat e p body =
     (let userMessage = field body ''userMessage'';
          chatHistory = field body ''chatHistory'';
          prospectId = field body ''prospectId''
      in if \<not> truthy prospectId then (Json 400 [(''error'', JStr ''Missing Prospect ID'')], [])
         else
           let q = PoolQuery SelectSystemPrompt [prospectId]
           in case select_system_prompt e p prospectId of
                Inl x \<Rightarrow> (failed_response, [q])
              | Inr [] \<Rightarrow> (Json 404 [(''error'', JStr ''Prospect brain not found'')], [q])
              | Inr (SYSTEM_PROMPT # rows) \<Rightarrow>
                  (case spread chatHistory of
                     Inl x \<Rightarrow> (failed_response, [q])
                   | Inr history \<Rightarrow>
                       let messages = [message ''system'' (JStr SYSTEM_PROMPT)] @ history @
                                      [message ''user'' userMessage];
                           llm = OpenRouterPost (model_name e) messages
                       in case openrouter e (model_name e) messages of
                            Inl x \<Rightarrow> (failed_response, [q, llm])
                          | Inr d \<Rightarrow>
                              (case llm_content d of
                                 Inl x \<Rightarrow> (failed_response, [q, llm])
                               | Inr textResponse \<Rightarrow>
                                   let tts = ElevenLabsPost textResponse
                                   in case elevenlabs e textResponse of
                                        Inl x \<Rightarrow> (failed_response, [q, llm, tts])
                                      | Inr bytes \<Rightarrow>
                                          (Json 200
                                             [(''textResponse'', textResponse),
                                              (''audioData'',
                                               JStr (''data:audio/mpeg;base64,'' @ base64 bytes))],
                                           [q, llm, tts]))))"

text \<open>The calls of a trace that leave for the external services, and the message
  sequences posted to the text-generation service.\<close>

fun external_calls :: "call list \<Rightarrow> call list" where
  "external_calls [] = []"
| "external_calls (PoolQuery s vs # cs) = external_calls cs"
| "external_calls (c # cs) = c # external_calls cs"

fun pool_queries :: "call list \<Rightarrow> call list" where
  "pool_queries [] = []"
| "pool_queries (PoolQuery s vs # cs) = PoolQuery s vs # pool_queries cs"
| "pool_queries (c # cs) = pool_queries cs"

fun openrouter_messages :: "call list \<Rightarrow> jsval list list" where
  "openrouter_messages [] = []"
| "openrouter_messages (OpenRouterPost m ms # cs) = ms # openrouter_messages cs"
| "openrouter_messages (c # cs) = openrouter_messages cs"

subsection \<open>\<^verbatim>\<open>GET /\<close>\<close>

text \<open>The argument is \<open>req.query.prospect\<close>.\<close>

definition landing :: "env \<Rightarrow> pool \<Rightarrow> jsval \<Rightarrow> response \<times> call list" where
  "landing e p prospectId =
     (if \<not> truthy prospectId
      then (Send 404 ''Prospect not found. Please use a valid demo link.'', [])
      else
        let q = PoolQuery SelectProspect [prospectId]
        in case select_prospect e p prospectId of
             Inl x \<Rightarrow> (Send 500 ''Server error'', [q])
           | Inr [] \<Rightarrow> (Send 404 ''Prospect not found.'', [q])
           | Inr (prospect # rows) \<Rightarrow> (RenderDemo (name prospect) (unique_id prospect), [q]))"

subsection \<open>The admin routes\<close>

text \<open>
  \<open>checkAuth\<close> lets a request through (\<open>next()\<close>) when it carries credentials and
  neither the name nor the password differs from the configured one; an environment
  variable that is not set equals no string.
\<close>

definition checkAuth :: "env \<Rightarrow> (string \<times> string) option \<Rightarrow> bool" where
  "checkAuth e credentials =
     (case credentials of
        None \<Rightarrow> False
      | Some (n, pw) \<Rightarrow> Some n = ADMIN_USERNAME e \<and> Some pw = ADMIN_PASSWORD e)"

text \<open>\<^verbatim>\<open>GET /admin\<close>, with \<open>req.protocol\<close> and \<open>req.get('host')\<close>.\<close>

definition admin ::
  "env \<Rightarrow> pool \<Rightarrow> (string \<times> string) option \<Rightarrow> string \<Rightarrow> string \<Rightarrow> response \<times> call list" where
  "admin e p credentials protocol host =
     (if \<not> checkAuth e credentials then (Send 401 ''Access denied'', [])
      else
        let q = PoolQuery SelectAllProspects []
        in case select_all_prospects e p of
             Inl x \<Rightarrow> (Send 500 ''Server error'', [q])
           | Inr rows \<Rightarrow> (RenderAdminDashboard rows (protocol @ ''://'' @ host), [q]))"

text \<open>The list the dashboard template writes, one item for each element of \<open>prospects\<close>
  in turn (\<open>prospects.forEach\<close>): the name and the shareable link.\<close>

fun dashboard_items :: "response \<Rightarrow> (string \<times> string) list" where
  "dashboard_items (RenderAdminDashboard rows baseUrl) =
     map (\<lambda>prospect. (name prospect, baseUrl @ ''/?prospect='' @ unique_id prospect)) rows"
| "dashboard_items r = []"

text \<open>\<^verbatim>\<open>POST /admin/create\<close>.\<close>

definition admin_create ::
  "env \<Rightarrow> pool \<Rightarrow> (string \<times> string) option \<Rightarrow> (string \<times> jsval) list
     \<Rightarrow> pool \<times> response \<times> call list" where
  "admin_create e p credentials body =
     (if \<not> checkAuth e credentials then (p, Send 401 ''Access denied'', [])
      else
        let prospectName = field body ''prospectName'';
            systemPrompt = field body ''systemPrompt'';
            uniqueId = JStr (uuidv4 e);
            q = PoolQuery InsertProspect [prospectName, systemPrompt, uniqueId]
        in case insert_prospect e p prospectName systemPrompt uniqueId of
             (p', Inl x) \<Rightarrow> (p', Send 500 ''Error creating prospect'', [q])
           | (p', Inr u) \<Rightarrow> (p', Redirect ''/admin'', [q]))"

text \<open>A history of creation requests, each with the environment it meets.\<close>

fun creations ::
  "(env \<times> (string \<times> string) option \<times> (string \<times> jsval) list) list \<Rightarrow> pool \<Rightarrow> pool" where
  "creations [] p = p"
| "creations ((e, credentials, body) # rs) p = creations rs (fst (admin_create e p credentials body))"

text \<open>The identifiers of the rows grow along the table and none exceeds the last value of
  the sequence.\<close>

definition serial_order :: "pool \<Rightarrow> bool" where
  "serial_order p =
     (sorted (map row_id (prospects p)) \<and>
      (\<forall>r\<in>set (prospects p). row_id r \<le> prospects_id_seq p))"

section \<open>The chat widget\<close>

text \<open>
  The widget's variables and the part of the page it works on: the input field, the
  children of \<open>chatMessages\<close> (each with the identity it got at creation), the
  transcript \<open>chatHistory\<close>, every \<open>Audio\<close> object created so far and
  \<open>currentAudio\<close>, which is \<open>null\<close> or refers to one of them. One call of
  \<open>sendMessage\<close> runs to its end before the next event; the outcome of its \<open>fetch\<close>
  is given with it.
\<close>

record element =
  el_id :: nat
  textContent :: jsval
  sender :: string
  loading :: bool
  play_button :: "jsval option"

record audio =
  src :: jsval
  playing :: bool

record widget =
  dataset_prospectId :: jsval
  chatInput_value :: string
  chatMessages :: "element list"
  created_elements :: nat
  chatHistory :: "jsval list"
  audios :: "audio list"
  currentAudio :: "nat option"

text \<open>The white space \<open>String.prototype.trim\<close> strips, among the characters of
  \<^typ>\<open>char\<close>: tab, line feed, vertical tab, form feed, carriage return, space and
  the no-break space.\<close>

definition js_whitespace :: "char \<Rightarrow> bool" where
  "js_whitespace c = (c \<in> set [CHR 0x09, CHR 0x0A, CHR 0x0B, CHR 0x0C, CHR 0x0D, CHR 0x20, CHR 0xA0])"

definition trim :: "string \<Rightarrow> string" where
  "trim s = rev (dropWhile js_whitespace (rev (dropWhile js_whitespace s)))"

text \<open>\<open>addMessageToUI(message, sender, audioData = null, isLoading = false)\<close> returns
  the element it appended.\<close>

definition addMessageToUI :: "widget \<Rightarrow> jsval \<Rightarrow> string \<Rightarrow> jsval \<Rightarrow> bool \<Rightarrow> widget \<times> nat" where
  "addMessageToUI w msg sndr audioData isLoading =
     (let audioData' = (if audioData = JUndefined then JNull else audioData);
          messageEl = \<lparr>el_id = created_elements w, textContent = msg, sender = sndr,
                       loading = isLoading,
                       play_button = (if sndr = ''ai'' \<and> truthy audioData' then Some audioData'
                                      else None)\<rparr>
      in (w\<lparr>chatMessages := chatMessages w @ [messageEl],
             created_elements := Suc (created_elements w)\<rparr>,
          el_id messageEl))"

definition removeChild :: "widget \<Rightarrow> nat \<Rightarrow> widget" where
  "removeChild w el = w\<lparr>chatMessages := filter (\<lambda>c. el_id c \<noteq> el) (chatMessages w)\<rparr>"

definition pause :: "widget \<Rightarrow> nat \<Rightarrow> widget" where
  "pause w i =
     (if i < length (audios w) then w\<lparr>audios := (audios w)[i := (audios w ! i)\<lparr>playing := False\<rparr>]\<rparr>
      else w)"

definition playAudio :: "widget \<Rightarrow> jsval \<Rightarrow> widget" where
  "playAudio w audioData =
     (let w' = (case currentAudio w of None \<Rightarrow> w | Some i \<Rightarrow> pause w i)
      in w'\<lparr>audios := audios w' @ [\<lparr>src = audioData, playing = True\<rparr>],
            currentAudio := Some (length (audios w'))\<rparr>)"

text \<open>
  The outcome of \<open>fetch\<close>: it rejects, or it resolves to a response with its \<open>ok\<close>
  flag and the value \<open>response.json()\<close> resolves to (\<open>None\<close> when that rejects).
\<close>

datatype fetch_outcome = FetchRejected | FetchResponse bool "jsval option"

text \<open>The \<open>catch\<close> block.\<close>

definition on_error :: "widget \<Rightarrow> nat \<Rightarrow> widget" where
  "on_error w loadingEl =
     (let w' = (if loadingEl \<in> set (map el_id (chatMessages w)) then removeChild w loadingEl
                else w)
      in fst (addMessageToUI w' (JStr ''Sorry, I am having trouble connecting. Please try again.'')
                ''ai'' JUndefined False))"

text \<open>\<open>sendMessage\<close> returns the widget after the turn and the bodies of the requests it
  sent to \<open>/chat\<close>.\<close>

definition sendMessage :: "widget \<Rightarrow> fetch_outcome \<Rightarrow> widget \<times> (string \<times> jsval) list list" where
  "sendMessage w outcome =
     (let userMessage = trim (chatInput_value w)
      in if userMessage = [] then (w, [])
         else
           let w1 = fst (addMessageToUI w (JStr userMessage) ''user'' JUndefined False);
               w2 = w1\<lparr>chatInput_value := [],
                       chatHistory := chatHistory w1 @ [message ''user'' (JStr userMessage)]\<rparr>;
               (w3, loadingEl) = addMessageToUI w2 (JStr ''...'') ''ai'' JNull True;
               body = [(''userMessage'', JStr userMessage),
                       (''chatHistory'', JArr (chatHistory w3)),
                       (''prospectId'', dataset_prospectId w3)]
           in case outcome of
                FetchRejected \<Rightarrow> (on_error w3 loadingEl, [body])
              | FetchResponse ok json \<Rightarrow>
                  let w4 = removeChild w3 loadingEl
                  in if \<not> ok then (on_error w4 loadingEl, [body])
                     else
                       (case json of
                          None \<Rightarrow> (on_error w4 loadingEl, [body])
                        | Some v \<Rightarrow>
                            (case (get_prop v ''textResponse'', get_prop v ''audioData'') of
                               (Inr textResponse, Inr audioData) \<Rightarrow>
                                 let w5 = fst (addMessageToUI w4 textResponse ''ai'' audioData False);
                                     w6 = w5\<lparr>chatHistory := chatHistory w5 @
                                                [message ''assistant'' textResponse]\<rparr>
                                 in (playAudio w6 audioData, [body])
                             | _ \<Rightarrow> (on_error w4 loadingEl, [body]))))"

text \<open>A turn ends in a network or HTTP failure when \<open>fetch\<close> rejects or the response
  is not \<open>ok\<close>.\<close>

fun failed :: "fetch_outcome \<Rightarrow> bool" where
  "failed FetchRejected = True"
| "failed (FetchResponse ok json) = (\<not> ok)"

text \<open>
  What happens to the widget: the visitor edits the input, sends it, presses the play
  button of a message, or an audio stops by itself (it ends, or the browser refuses to
  start it).
\<close>

datatype event = Typed string | Submitted fetch_outcome | PlayClicked nat | AudioStopped nat

definition step :: "widget \<Rightarrow> event \<Rightarrow> widget" where
  "step w ev =
     (case ev of
        Typed s \<Rightarrow> w\<lparr>chatInput_value := s\<rparr>
      | Submitted outcome \<Rightarrow> fst (sendMessage w outcome)
      | PlayClicked k \<Rightarrow>
          (if k < length (chatMessages w)
           then (case play_button (chatMessages w ! k) of None \<Rightarrow> w | Some d \<Rightarrow> playAudio w d)
           else w)
      | AudioStopped i \<Rightarrow> pause w i)"

text \<open>The widget when the page has loaded, with the identifier and the messages the
  template put there.\<close>

definition loaded :: "jsval \<Rightarrow> element list \<Rightarrow> widget" where
  "loaded pid els =
     \<lparr>dataset_prospectId = pid, chatInput_value = [], chatMessages = els,
      created_elements = length els, chatHistory = [], audios = [], currentAudio = None\<rparr>"

text \<open>The widget after the optimistic part of a turn, when the placeholder is shown.\<close>

definition awaiting :: "widget \<Rightarrow> widget \<times> nat" where
  "awaiting w =
     addMessageToUI
       ((fst (addMessageToUI w (JStr (trim (chatInput_value w))) ''user'' JUndefined False))
          \<lparr>chatInput_value := [],
            chatHistory := chatHistory w @ [message ''user'' (JStr (trim (chatInput_value w)))]\<rparr>)
       (JStr ''...'') ''ai'' JNull True"

text \<open>No audio plays except the one \<open>currentAudio\<close> refers to.\<close>

definition quiet_but_current :: "widget \<Rightarrow> bool" where
  "quiet_but_current w =
     (\<forall>i<length (audios w). playing (audios w ! i) \<longrightarrow> currentAudio w = Some i)"

section \<open>The scenario of the specification\<close>

definition scenario_pool :: pool where
  "scenario_pool =
     \<lparr>prospects = [\<lparr>row_id = 1, name = ''Widget Co'', system_prompt = ''You sell widgets.'',
                     unique_id = ''p-123''\<rparr>],
      prospects_id_seq = 1\<rparr>"

definition scenario_env :: env where
  "scenario_env =
     \<lparr>OPENROUTER_MODEL_NAME = None, ADMIN_USERNAME = Some ''admin'',
      ADMIN_PASSWORD = Some ''secret'', query_rejected = False, driver_text = (\<lambda>v. []),
      uuidv4 = ''0b0e6a3c'',
      openrouter = (\<lambda>m ms. Inr (JObj [(''choices'',
         JArr [JObj [(''message'', message ''assistant'' (JStr ''Hello!''))]])])),
      elevenlabs = (\<lambda>t. Inr [0x58, 0x59])\<rparr>"

definition acme_form :: "(string \<times> jsval) list" where
  "acme_form = [(''prospectName'', JStr ''Acme''), (''systemPrompt'', JStr ''You sell anvils.'')]"

definition bolt_form :: "(string \<times> jsval) list" where
  "bolt_form = [(''prospectName'', JStr ''Bolt''), (''systemPrompt'', JStr ''You sell bolts.'')]"

section \<open>Properties of the server\<close>

text \<open>The encoding agrees with the test vectors of RFC 4648.\<close>

lemma base64_vectors:
  "base64 [] = []"
  "base64 [0x66] = ''Zg==''"
  "base64 [0x66, 0x6f] = ''Zm8=''"
  "base64 [0x66, 0x6f, 0x6f] = ''Zm9v''"
  "base64 [0x66, 0x6f, 0x6f, 0x62] = ''Zm9vYg==''"
  "base64 [0x66, 0x6f, 0x6f, 0x62, 0x61] = ''Zm9vYmE=''"
  "base64 [0x66, 0x6f, 0x6f, 0x62, 0x61, 0x72] = ''Zm9vYmFy''"
  by (simp_all add: sextet_def alphabet_def)

text \<open>
  Claim C1. In a chat turn whose prospect is found (the identifier passes the guard, the
  query is answered, its first row is \<open>prospect\<close>) and whose transcript is an array of
  \<open>N\<close> turns, exactly one message sequence is posted to the text-generation service. It
  has \<open>N + 2\<close> entries: the system entry with the stored prompt, the \<open>N\<close> turns in
  their order, and the visitor's message as the last, user entry.
\<close>

theorem chat_message_sequence:
  assumes "truthy (field body ''prospectId'')"
      and "\<not> query_rejected e"
      and "where_unique_id e p (field body ''prospectId'') = prospect # rows"
      and "field body ''chatHistory'' = JArr history"
  shows "openrouter_messages (snd (chat e p body)) =
           [message ''system'' (JStr (system_prompt prospect)) # history @
            [message ''user'' (field body ''userMessage'')]]
         \<and> length (message ''system'' (JStr (system_prompt prospect)) # history @
                    [message ''user'' (field body ''userMessage'')]) = length history + 2"
  using assms
  by (simp add: chat_def select_system_prompt_def Let_def split: sum.splits)

text \<open>The turn after a first exchange, in the scenario of the specification.\<close>

theorem chat_message_sequence_witness:
  "openrouter_messages (snd (chat scenario_env scenario_pool
      [(''userMessage'', JStr ''and the price?''),
       (''chatHistory'', JArr [message ''user'' (JStr ''hi''), message ''assistant'' (JStr ''Hello!'')]),
       (''prospectId'', JStr ''p-123'')])) =
   [[message ''system'' (JStr ''You sell widgets.''), message ''user'' (JStr ''hi''),
     message ''assistant'' (JStr ''Hello!''), message ''user'' (JStr ''and the price?'')]]"
proof -
  let ?row = "\<lparr>row_id = 1, name = ''Widget Co'', system_prompt = ''You sell widgets.'',
               unique_id = ''p-123''\<rparr>"
  let ?body = "[(''userMessage'', JStr ''and the price?''),
       (''chatHistory'', JArr [message ''user'' (JStr ''hi''), message ''assistant'' (JStr ''Hello!'')]),
       (''prospectId'', JStr ''p-123'')]"
  have "truthy (field ?body ''prospectId'')"
    and "\<not> query_rejected scenario_env"
    and "where_unique_id scenario_env scenario_pool (field ?body ''prospectId'') = ?row # []"
    and "field ?body ''chatHistory'' =
           JArr [message ''user'' (JStr ''hi''), message ''assistant'' (JStr ''Hello!'')]"
    by (simp_all add: field_def scenario_env_def scenario_pool_def where_unique_id_def)
  from chat_message_sequence [OF this] show ?thesis
    by (simp add: field_def)
qed

text \<open>
  Claim C3. When the text-generation call succeeds (the post resolves and the reply text
  can be read from its data) and the speech-synthesis call fails, the handler answers
  the generic server error, an object with the one field \<open>error\<close> and so without the
  reply text, after having made both calls.
\<close>

theorem synthesis_failure_fails_turn:
  assumes "truthy (field body ''prospectId'')"
      and "\<not> query_rejected e"
      and "where_unique_id e p (field body ''prospectId'') = prospect # rows"
      and "spread (field body ''chatHistory'') = Inr history"
      and "messages = message ''system'' (JStr (system_prompt prospect)) # history @
                      [message ''user'' (field body ''userMessage'')]"
      and "openrouter e (model_name e) messages = Inr d"
      and "llm_content d = Inr textResponse"
      and "elevenlabs e textResponse = Inl x"
  shows "chat e p body =
           (Json 500 [(''error'', JStr ''Failed to get AI response'')],
            [PoolQuery SelectSystemPrompt [field body ''prospectId''],
             OpenRouterPost (model_name e) messages,
             ElevenLabsPost textResponse])"
  using assms
  by (simp add: chat_def select_system_prompt_def failed_response_def Let_def)

text \<open>The scenario with a speech-synthesis service that refuses.\<close>

theorem synthesis_failure_fails_turn_witness:
  "chat (scenario_env\<lparr>elevenlabs := (\<lambda>t. Inl RequestError)\<rparr>) scenario_pool
      [(''userMessage'', JStr ''hi''), (''chatHistory'', JArr []), (''prospectId'', JStr ''p-123'')] =
   (Json 500 [(''error'', JStr ''Failed to get AI response'')],
    [PoolQuery SelectSystemPrompt [JStr ''p-123''],
     OpenRouterPost ''google/gemini-pro''
       [message ''system'' (JStr ''You sell widgets.''), message ''user'' (JStr ''hi'')],
     ElevenLabsPost (JStr ''Hello!'')])"
proof -
  let ?row = "\<lparr>row_id = 1, name = ''Widget Co'', system_prompt = ''You sell widgets.'',
               unique_id = ''p-123''\<rparr>"
  let ?body = "[(''userMessage'', JStr ''hi''), (''chatHistory'', JArr []), (''prospectId'', JStr ''p-123'')]"
  let ?e = "scenario_env\<lparr>elevenlabs := (\<lambda>t. Inl RequestError)\<rparr>"
  let ?messages = "[message ''system'' (JStr ''You sell widgets.''), message ''user'' (JStr ''hi'')]"
  let ?d = "JObj [(''choices'', JArr [JObj [(''message'', message ''assistant'' (JStr ''Hello!''))]])]"
  have "truthy (field ?body ''prospectId'')"
    and "\<not> query_rejected ?e"
    and "where_unique_id ?e scenario_pool (field ?body ''prospectId'') = ?row # []"
    and "spread (field ?body ''chatHistory'') = Inr []"
    and "?messages = message ''system'' (JStr (system_prompt ?row)) # [] @
                       [message ''user'' (field ?body ''userMessage'')]"
    and "openrouter ?e (model_name ?e) ?messages = Inr ?d"
    and "llm_content ?d = Inr (JStr ''Hello!'')"
    and "elevenlabs ?e (JStr ''Hello!'') = Inl RequestError"
    by (simp_all add: field_def scenario_env_def scenario_pool_def where_unique_id_def
          llm_content_def message_def)
  from synthesis_failure_fails_turn [OF this] show ?thesis
    by (simp add: field_def model_name_def scenario_env_def)
qed

text \<open>
  Claim C4. Without an identifier the chat route answers the 400 client error and the
  landing route answers not-found, and neither makes any call. With an identifier that
  is looked up (it passes the guard and the query is answered) and matches no stored
  prospect, both routes answer 404 after the one query on the pool. In none of these
  cases is a call made to the text-generation or the speech-synthesis service.
\<close>

theorem unknown_or_absent_identifier:
  "(map_of body ''prospectId'' = None \<longrightarrow>
      chat e p body = (Json 400 [(''error'', JStr ''Missing Prospect ID'')], []))
   \<and> landing e p JUndefined =
       (Send 404 ''Prospect not found. Please use a valid demo link.'', [])
   \<and> (truthy prospectId \<and> \<not> query_rejected e \<and> where_unique_id e p prospectId = [] \<longrightarrow>
        (field body ''prospectId'' = prospectId \<longrightarrow>
           chat e p body = (Json 404 [(''error'', JStr ''Prospect brain not found'')],
                            [PoolQuery SelectSystemPrompt [prospectId]])
           \<and> external_calls (snd (chat e p body)) = [])
        \<and> landing e p prospectId =
            (Send 404 ''Prospect not found.'', [PoolQuery SelectProspect [prospectId]])
        \<and> external_calls (snd (landing e p prospectId)) = [])"
  by (simp add: chat_def landing_def field_def select_system_prompt_def select_prospect_def)

text \<open>A body without identifier and the unknown identifier \<open>p-999\<close>.\<close>

theorem unknown_or_absent_identifier_witness:
  "chat scenario_env scenario_pool [(''userMessage'', JStr ''hi''), (''chatHistory'', JArr [])] =
     (Json 400 [(''error'', JStr ''Missing Prospect ID'')], [])
   \<and> chat scenario_env scenario_pool
       [(''userMessage'', JStr ''hi''), (''chatHistory'', JArr []), (''prospectId'', JStr ''p-999'')] =
     (Json 404 [(''error'', JStr ''Prospect brain not found'')],
      [PoolQuery SelectSystemPrompt [JStr ''p-999'']])
   \<and> landing scenario_env scenario_pool (JStr ''p-999'') =
     (Send 404 ''Prospect not found.'', [PoolQuery SelectProspect [JStr ''p-999'']])"
proof -
  let ?absent = "[(''userMessage'', JStr ''hi''), (''chatHistory'', JArr [])]"
  let ?unknown = "[(''userMessage'', JStr ''hi''), (''chatHistory'', JArr []),
                   (''prospectId'', JStr ''p-999'')]"
  have absent: "map_of ?absent ''prospectId'' = None"
    by simp
  have unknown: "truthy (JStr ''p-999'') \<and> \<not> query_rejected scenario_env
                 \<and> where_unique_id scenario_env scenario_pool (JStr ''p-999'') = []"
    by (simp add: scenario_env_def scenario_pool_def where_unique_id_def)
  have sent: "field ?unknown ''prospectId'' = JStr ''p-999''"
    by (simp add: field_def)
  from unknown_or_absent_identifier [of ?absent scenario_env scenario_pool "JStr ''p-999''"] absent
  have 1: "chat scenario_env scenario_pool ?absent =
             (Json 400 [(''error'', JStr ''Missing Prospect ID'')], [])"
    by blast
  from unknown_or_absent_identifier [of ?unknown scenario_env scenario_pool "JStr ''p-999''"]
    unknown sent
  have 2: "chat scenario_env scenario_pool ?unknown =
             (Json 404 [(''error'', JStr ''Prospect brain not found'')],
              [PoolQuery SelectSystemPrompt [JStr ''p-999'']])"
    and 3: "landing scenario_env scenario_pool (JStr ''p-999'') =
             (Send 404 ''Prospect not found.'', [PoolQuery SelectProspect [JStr ''p-999'']])"
    by blast+
  from 1 2 3 show ?thesis
    by blast
qed

text \<open>
  Claim C5. For a prospect with the prompt \<open>You sell widgets.\<close>, the visitor message
  \<open>hi\<close> and an empty transcript, the messages posted to the text-generation service are
  the system entry with that prompt and the user entry \<open>hi\<close>; and whenever the
  synthesis then returns the bytes \<open>B\<close>, the \<open>audioData\<close> field of the answer is
  \<open>data:audio/mpeg;base64,\<close> followed by the base64 encoding of \<open>B\<close>.
\<close>

theorem scenario_payload_and_audio:
  assumes "truthy prospectId"
      and "\<not> query_rejected e"
      and "where_unique_id e p prospectId = prospect # rows"
      and "system_prompt prospect = ''You sell widgets.''"
      and "body = [(''userMessage'', JStr ''hi''), (''chatHistory'', JArr []),
                   (''prospectId'', prospectId)]"
  shows "openrouter_messages (snd (chat e p body)) =
           [[message ''system'' (JStr ''You sell widgets.''), message ''user'' (JStr ''hi'')]]
         \<and> (\<forall>d textResponse B.
               openrouter e (model_name e)
                 [message ''system'' (JStr ''You sell widgets.''), message ''user'' (JStr ''hi'')] = Inr d
               \<and> llm_content d = Inr textResponse \<and> elevenlabs e textResponse = Inr B \<longrightarrow>
               fst (chat e p body) =
                 Json 200 [(''textResponse'', textResponse),
                           (''audioData'', JStr (''data:audio/mpeg;base64,'' @ base64 B))])"
  using assms
  by (simp add: chat_def select_system_prompt_def Let_def field_def split: sum.splits)

text \<open>The scenario's prospect \<open>p-123\<close> and the audio bytes \<open>XY\<close>.\<close>

theorem scenario_payload_and_audio_witness:
  "openrouter_messages (snd (chat scenario_env scenario_pool
      [(''userMessage'', JStr ''hi''), (''chatHistory'', JArr []), (''prospectId'', JStr ''p-123'')])) =
     [[message ''system'' (JStr ''You sell widgets.''), message ''user'' (JStr ''hi'')]]
   \<and> fst (chat scenario_env scenario_pool
      [(''userMessage'', JStr ''hi''), (''chatHistory'', JArr []), (''prospectId'', JStr ''p-123'')]) =
     Json 200 [(''textResponse'', JStr ''Hello!''),
               (''audioData'', JStr ''data:audio/mpeg;base64,WFk='')]"
proof -
  let ?body = "[(''userMessage'', JStr ''hi''), (''chatHistory'', JArr []), (''prospectId'', JStr ''p-123'')]"
  let ?row = "\<lparr>row_id = 1, name = ''Widget Co'', system_prompt = ''You sell widgets.'', unique_id = ''p-123''\<rparr>"
  have h: "truthy (JStr ''p-123'')" "\<not> query_rejected scenario_env"
    "where_unique_id scenario_env scenario_pool (JStr ''p-123'') = ?row # []"
    "system_prompt ?row = ''You sell widgets.''"
    by (simp_all add: scenario_env_def scenario_pool_def where_unique_id_def)
  from scenario_payload_and_audio [OF h refl]
  have "openrouter_messages (snd (chat scenario_env scenario_pool ?body)) =
           [[message ''system'' (JStr ''You sell widgets.''), message ''user'' (JStr ''hi'')]]"
    and "\<And>d t B. openrouter scenario_env (model_name scenario_env)
                 [message ''system'' (JStr ''You sell widgets.''), message ''user'' (JStr ''hi'')] = Inr d
               \<Longrightarrow> llm_content d = Inr t \<Longrightarrow> elevenlabs scenario_env t = Inr B \<Longrightarrow>
               fst (chat scenario_env scenario_pool ?body) =
                 Json 200 [(''textResponse'', t),
                           (''audioData'', JStr (''data:audio/mpeg;base64,'' @ base64 B))]"
    by blast+
  from this(1) this(2) [of "JObj [(''choices'', JArr [JObj [(''message'', message ''assistant'' (JStr ''Hello!''))]])]"
                           "JStr ''Hello!''" "[0x58, 0x59]"]
  show ?thesis
    by (simp add: scenario_env_def llm_content_def message_def field_def sextet_def alphabet_def)
qed

text \<open>
  Claim C10. When the identifier resolves to a stored prospect and the body has no
  \<open>chatHistory\<close> field, the handler makes the query on the pool and then answers the
  generic 500 error \<open>Failed to get AI response\<close>; no call to an external service is
  made.
\<close>

theorem absent_transcript_is_server_error:
  assumes "truthy (field body ''prospectId'')"
      and "\<not> query_rejected e"
      and "where_unique_id e p (field body ''prospectId'') = prospect # rows"
      and "map_of body ''chatHistory'' = None"
  shows "chat e p body =
           (Json 500 [(''error'', JStr ''Failed to get AI response'')],
            [PoolQuery SelectSystemPrompt [field body ''prospectId'']])
         \<and> external_calls (snd (chat e p body)) = []"
  using assms
  by (simp add: chat_def select_system_prompt_def failed_response_def Let_def field_def)

text \<open>The scenario's prospect, asked without a transcript.\<close>

theorem absent_transcript_is_server_error_witness:
  "chat scenario_env scenario_pool [(''userMessage'', JStr ''hi''), (''prospectId'', JStr ''p-123'')] =
     (Json 500 [(''error'', JStr ''Failed to get AI response'')],
      [PoolQuery SelectSystemPrompt [JStr ''p-123'']])"
proof -
  let ?row = "\<lparr>row_id = 1, name = ''Widget Co'', system_prompt = ''You sell widgets.'',
               unique_id = ''p-123''\<rparr>"
  let ?body = "[(''userMessage'', JStr ''hi''), (''prospectId'', JStr ''p-123'')]"
  have "truthy (field ?body ''prospectId'')"
    and "\<not> query_rejected scenario_env"
    and "where_unique_id scenario_env scenario_pool (field ?body ''prospectId'') = ?row # []"
    and "map_of ?body ''chatHistory'' = None"
    by (simp_all add: field_def scenario_env_def scenario_pool_def where_unique_id_def)
  from absent_transcript_is_server_error [OF this] show ?thesis
    by (simp add: field_def)
qed

text \<open>
  Claim C9. When the identifier is present and is the empty string, the chat route
  answers the 400 error \<open>Missing Prospect ID\<close>, as it does for a body without the
  field, and the landing route answers the not-found of an absent identifier; neither
  route queries the pool.
\<close>

theorem empty_identifier_is_absent:
  assumes "map_of body ''prospectId'' = Some (JStr [])"
      and "map_of body' ''prospectId'' = None"
  shows "chat e p body = (Json 400 [(''error'', JStr ''Missing Prospect ID'')], [])
         \<and> chat e p body = chat e p body'
         \<and> landing e p (JStr []) =
             (Send 404 ''Prospect not found. Please use a valid demo link.'', [])
         \<and> landing e p (JStr []) = landing e p JUndefined
         \<and> pool_queries (snd (chat e p body)) = []
         \<and> pool_queries (snd (landing e p (JStr []))) = []"
  using assms
  by (simp add: chat_def landing_def field_def)

text \<open>A body whose identifier is the empty string.\<close>

theorem empty_identifier_is_absent_witness:
  "chat scenario_env scenario_pool
     [(''userMessage'', JStr ''hi''), (''chatHistory'', JArr []), (''prospectId'', JStr [])] =
     (Json 400 [(''error'', JStr ''Missing Prospect ID'')], [])
   \<and> landing scenario_env scenario_pool (JStr []) =
     (Send 404 ''Prospect not found. Please use a valid demo link.'', [])"
proof -
  have "map_of [(''userMessage'', JStr ''hi''), (''chatHistory'', JArr []), (''prospectId'', JStr [])]
          ''prospectId'' = Some (JStr [])"
    and "map_of [(''userMessage'', JStr ''hi''), (''chatHistory'', JArr [])] ''prospectId'' = None"
    by simp_all
  from empty_identifier_is_absent [OF this] show ?thesis
    by blast
qed

section \<open>Properties of the widget\<close>

lemma trim_whitespace: "(\<forall>c\<in>set s. js_whitespace c) \<Longrightarrow> trim s = []"
proof -
  assume "\<forall>c\<in>set s. js_whitespace c"
  then have blank: "dropWhile js_whitespace s = []"
    by simp
  show ?thesis
    unfolding trim_def blank by simp
qed

text \<open>
  Claim C6. When the input is empty or holds white space only, \<open>sendMessage\<close> sends no
  request and leaves the widget, and so its transcript, as it was.
\<close>

theorem blank_input_sends_nothing:
  assumes "\<forall>c\<in>set (chatInput_value w). js_whitespace c"
  shows "sendMessage w outcome = (w, [])"
  using assms by (simp add: sendMessage_def trim_whitespace)

text \<open>An input of a space, a tab and a space.\<close>

theorem blank_input_sends_nothing_witness:
  "sendMessage ((loaded (JStr ''p-123'') [])\<lparr>chatInput_value := [CHR 0x20, CHR 0x09, CHR 0x20]\<rparr>)
     FetchRejected =
   ((loaded (JStr ''p-123'') [])\<lparr>chatInput_value := [CHR 0x20, CHR 0x09, CHR 0x20]\<rparr>, [])"
proof -
  let ?w = "(loaded (JStr ''p-123'') [])\<lparr>chatInput_value := [CHR 0x20, CHR 0x09, CHR 0x20]\<rparr>"
  have "\<forall>c\<in>set (chatInput_value ?w). js_whitespace c"
    by (simp add: js_whitespace_def)
  from blank_input_sends_nothing [OF this] show ?thesis .
qed

text \<open>What the helpers leave untouched.\<close>

lemma addMessageToUI_fields [simp]:
  "chatHistory (fst (addMessageToUI w m s a l)) = chatHistory w"
  "dataset_prospectId (fst (addMessageToUI w m s a l)) = dataset_prospectId w"
  "audios (fst (addMessageToUI w m s a l)) = audios w"
  "currentAudio (fst (addMessageToUI w m s a l)) = currentAudio w"
  by (simp_all add: addMessageToUI_def Let_def)

lemma removeChild_fields [simp]:
  "chatHistory (removeChild w el) = chatHistory w"
  "dataset_prospectId (removeChild w el) = dataset_prospectId w"
  "audios (removeChild w el) = audios w"
  "currentAudio (removeChild w el) = currentAudio w"
  by (simp_all add: removeChild_def)

lemma on_error_fields [simp]:
  "chatHistory (on_error w el) = chatHistory w"
  "dataset_prospectId (on_error w el) = dataset_prospectId w"
  "audios (on_error w el) = audios w"
  "currentAudio (on_error w el) = currentAudio w"
  by (simp_all add: on_error_def Let_def)

lemma awaiting_fields [simp]:
  "chatHistory (fst (awaiting w)) = chatHistory w @ [message ''user'' (JStr (trim (chatInput_value w)))]"
  "dataset_prospectId (fst (awaiting w)) = dataset_prospectId w"
  "audios (fst (awaiting w)) = audios w"
  "currentAudio (fst (awaiting w)) = currentAudio w"
  by (simp_all add: awaiting_def)

lemma sendMessage_awaiting:
  "sendMessage w outcome =
     (if trim (chatInput_value w) = [] then (w, [])
      else
        let w3 = fst (awaiting w); loadingEl = snd (awaiting w);
            body = [(''userMessage'', JStr (trim (chatInput_value w))),
                    (''chatHistory'', JArr (chatHistory w3)),
                    (''prospectId'', dataset_prospectId w3)]
        in case outcome of
             FetchRejected \<Rightarrow> (on_error w3 loadingEl, [body])
           | FetchResponse ok json \<Rightarrow>
               let w4 = removeChild w3 loadingEl
               in if \<not> ok then (on_error w4 loadingEl, [body])
                  else
                    (case json of
                       None \<Rightarrow> (on_error w4 loadingEl, [body])
                     | Some v \<Rightarrow>
                         (case (get_prop v ''textResponse'', get_prop v ''audioData'') of
                            (Inr textResponse, Inr audioData) \<Rightarrow>
                              let w5 = fst (addMessageToUI w4 textResponse ''ai'' audioData False);
                                  w6 = w5\<lparr>chatHistory := chatHistory w5 @
                                             [message ''assistant'' textResponse]\<rparr>
                              in (playAudio w6 audioData, [body])
                          | _ \<Rightarrow> (on_error w4 loadingEl, [body]))))"
  unfolding sendMessage_def awaiting_def Let_def
  by (simp add: case_prod_beta)

lemma request_sent:
  assumes "trim (chatInput_value w) \<noteq> []"
  shows "snd (sendMessage w outcome) =
           [[(''userMessage'', JStr (trim (chatInput_value w))),
             (''chatHistory'', JArr (chatHistory w @ [message ''user'' (JStr (trim (chatInput_value w)))])),
             (''prospectId'', dataset_prospectId w)]]"
  using assms
  by (simp add: sendMessage_awaiting Let_def split: fetch_outcome.splits option.splits sum.splits)

lemma failed_turn_fields:
  assumes "failed outcome" and "trim (chatInput_value w) \<noteq> []"
  shows "chatHistory (fst (sendMessage w outcome)) =
           chatHistory w @ [message ''user'' (JStr (trim (chatInput_value w)))]"
    and "dataset_prospectId (fst (sendMessage w outcome)) = dataset_prospectId w"
  using assms
  by (cases outcome; simp add: sendMessage_awaiting Let_def)+

subsection \<open>Audio\<close>

lemma filter_at_most_one:
  "(\<forall>i<length xs. P (xs ! i) \<longrightarrow> i = k) \<Longrightarrow> length (filter P xs) \<le> 1"
proof (induction xs arbitrary: k)
  case Nil
  then show ?case by simp
next
  case (Cons a as)
  show ?case
  proof (cases "P a")
    case True
    with Cons.prems have k: "k = 0" by auto
    have "\<not> P x" if "x \<in> set as" for x
    proof
      assume "P x"
      from that obtain j where "j < length as" "as ! j = x"
        by (auto simp: in_set_conv_nth)
      with Cons.prems \<open>P x\<close> have "Suc j = k" by auto
      with k show False by simp
    qed
    then have "filter P as = []" by (simp add: filter_empty_conv)
    with True show ?thesis by simp
  next
    case False
    from Cons.prems have "\<forall>j<length as. P (as ! j) \<longrightarrow> j = k - 1" by fastforce
    from Cons.IH [OF this] False show ?thesis by simp
  qed
qed

lemma quiet_at_most_one:
  assumes "quiet_but_current w"
  shows "length (filter playing (audios w)) \<le> 1"
proof (cases "currentAudio w")
  case None
  with assms have "\<forall>i<length (audios w). playing (audios w ! i) \<longrightarrow> i = 0"
    by (simp add: quiet_but_current_def)
  then show ?thesis by (rule filter_at_most_one)
next
  case (Some k)
  with assms have "\<forall>i<length (audios w). playing (audios w ! i) \<longrightarrow> i = k"
    by (simp add: quiet_but_current_def)
  then show ?thesis by (rule filter_at_most_one)
qed

lemma pause_fields [simp]:
  "currentAudio (pause w i) = currentAudio w"
  "length (audios (pause w i)) = length (audios w)"
  "chatHistory (pause w i) = chatHistory w"
  by (simp_all add: pause_def)

lemma playing_pause:
  "j < length (audios w) \<Longrightarrow>
     playing (audios (pause w i) ! j) = (j \<noteq> i \<and> playing (audios w ! j))"
  by (simp add: pause_def nth_list_update)

lemma quiet_pause: "quiet_but_current w \<Longrightarrow> quiet_but_current (pause w i)"
  by (simp add: quiet_but_current_def playing_pause)

lemma silent_before_play:
  assumes "quiet_but_current w"
      and that: "a \<in> set (audios (case currentAudio w of None \<Rightarrow> w | Some i \<Rightarrow> pause w i))"
  shows "\<not> playing a"
proof (cases "currentAudio w")
  case None
  with that obtain j where "j < length (audios w)" "audios w ! j = a"
    by (auto simp: in_set_conv_nth)
  with assms(1) None show ?thesis by (auto simp: quiet_but_current_def)
next
  case (Some i)
  with that obtain j where j: "j < length (audios w)" "audios (pause w i) ! j = a"
    by (auto simp: in_set_conv_nth)
  from j(1) have "playing (audios (pause w i) ! j) = (j \<noteq> i \<and> playing (audios w ! j))"
    by (rule playing_pause)
  with assms(1) Some j show ?thesis by (auto simp: quiet_but_current_def)
qed

lemma playAudio_only_new:
  assumes "quiet_but_current w"
  shows "filter playing (audios (playAudio w d)) = [\<lparr>src = d, playing = True\<rparr>]"
    and "currentAudio (playAudio w d) = Some (length (audios w))"
    and "length (audios (playAudio w d)) = Suc (length (audios w))"
    and "quiet_but_current (playAudio w d)"
proof -
  let ?w = "case currentAudio w of None \<Rightarrow> w | Some i \<Rightarrow> pause w i"
  have silent: "\<forall>a\<in>set (audios ?w). \<not> playing a"
    using silent_before_play [OF assms] by blast
  have len: "length (audios ?w) = length (audios w)"
    by (simp split: option.splits)
  from silent have "filter playing (audios ?w) = []"
    by (simp add: filter_empty_conv)
  then show "filter playing (audios (playAudio w d)) = [\<lparr>src = d, playing = True\<rparr>]"
    by (simp add: playAudio_def Let_def)
  show "currentAudio (playAudio w d) = Some (length (audios w))"
    by (simp add: playAudio_def Let_def len)
  show "length (audios (playAudio w d)) = Suc (length (audios w))"
    by (simp add: playAudio_def Let_def len)
  from silent have "\<forall>i<length (audios ?w). \<not> playing (audios ?w ! i)"
    by simp
  then show "quiet_but_current (playAudio w d)"
    by (auto simp: quiet_but_current_def playAudio_def Let_def len nth_append)
qed

lemma quiet_same_audio:
  "audios w' = audios w \<Longrightarrow> currentAudio w' = currentAudio w \<Longrightarrow>
     quiet_but_current w \<Longrightarrow> quiet_but_current w'"
  by (simp add: quiet_but_current_def)

lemma quiet_sendMessage:
  assumes "quiet_but_current w"
  shows "quiet_but_current (fst (sendMessage w outcome))"
proof -
  have a: "quiet_but_current (fst (awaiting w))"
    using assms by (rule quiet_same_audio [rotated 2]) simp_all
  have e: "quiet_but_current (on_error w' el)" if "quiet_but_current w'" for w' el
    using that by (rule quiet_same_audio [rotated 2]) simp_all
  have r: "quiet_but_current (removeChild w' el)" if "quiet_but_current w'" for w' el
    using that by (rule quiet_same_audio [rotated 2]) simp_all
  have m: "quiet_but_current
             ((fst (addMessageToUI w' t s d l))\<lparr>chatHistory := h\<rparr>)" if "quiet_but_current w'"
    for w' t s d l h
    using that by (rule quiet_same_audio [rotated 2]) simp_all
  show ?thesis
    using assms a
    by (auto simp: sendMessage_awaiting Let_def e r m playAudio_only_new(4)
          split: fetch_outcome.splits option.splits sum.splits)
qed

lemma quiet_step: "quiet_but_current w \<Longrightarrow> quiet_but_current (step w ev)"
  by (cases ev)
     (auto simp: step_def quiet_sendMessage quiet_pause playAudio_only_new(4)
        intro: quiet_same_audio split: option.splits)

lemma quiet_run: "quiet_but_current w \<Longrightarrow> quiet_but_current (foldl step w evs)"
  by (induction evs arbitrary: w) (simp_all add: quiet_step)

lemma quiet_loaded: "quiet_but_current (loaded pid els)"
  by (simp add: quiet_but_current_def loaded_def)

text \<open>
  Claim C8. After any sequence of events on the loaded widget at most one audio is
  playing; and a call of \<open>playAudio\<close> in such a state leaves exactly one audio playing,
  the new one, which is then \<open>currentAudio\<close>: the one that played before is paused
  and nothing waits in a queue.
\<close>

theorem one_audio_at_a_time:
  "length (filter playing (audios (foldl step (loaded pid els) evs))) \<le> 1
   \<and> filter playing (audios (playAudio (foldl step (loaded pid els) evs) d)) =
       [\<lparr>src = d, playing = True\<rparr>]
   \<and> currentAudio (playAudio (foldl step (loaded pid els) evs) d) =
       Some (length (audios (foldl step (loaded pid els) evs)))"
proof -
  have q: "quiet_but_current (foldl step (loaded pid els) evs)"
    by (rule quiet_run [OF quiet_loaded])
  show ?thesis
    using quiet_at_most_one [OF q] playAudio_only_new(1,2) [OF q, of d] by simp
qed

subsection \<open>Failed turns\<close>

text \<open>
  Claim C2, as stated, fails: on the freshly loaded widget the visitor sends \<open>hi\<close> and
  \<open>fetch\<close> rejects. The transcript, empty before, now holds the visitor's entry, and
  the request of the next turn carries it.
\<close>

theorem failed_turn_leaves_trace:
  "failed FetchRejected
   \<and> chatHistory ((loaded (JStr ''p-123'') [])\<lparr>chatInput_value := ''hi''\<rparr>) = []
   \<and> chatHistory (fst (sendMessage ((loaded (JStr ''p-123'') [])\<lparr>chatInput_value := ''hi''\<rparr>)
                          FetchRejected)) = [message ''user'' (JStr ''hi'')]
   \<and> snd (sendMessage
            ((fst (sendMessage ((loaded (JStr ''p-123'') [])\<lparr>chatInput_value := ''hi''\<rparr>)
                     FetchRejected))\<lparr>chatInput_value := ''again''\<rparr>)
            FetchRejected) =
       [[(''userMessage'', JStr ''again''),
         (''chatHistory'', JArr [message ''user'' (JStr ''hi''), message ''user'' (JStr ''again'')]),
         (''prospectId'', JStr ''p-123'')]]"
proof -
  have t: "trim ''hi'' = ''hi''" "trim ''again'' = ''again''"
    by (simp_all add: trim_def js_whitespace_def)
  show ?thesis
    by (simp add: request_sent failed_turn_fields t loaded_def)
qed

text \<open>
  Claim C2, amended. After a turn that ends in a network or HTTP failure the transcript
  is the one before the send followed by the visitor's entry of that turn, with no
  assistant entry; the request of the next turn carries that transcript followed by
  the new visitor entry.
\<close>

theorem failed_turn_keeps_visitor_entry:
  assumes "failed outcome"
      and "trim (chatInput_value w) \<noteq> []"
      and "trim s \<noteq> []"
  shows "chatHistory (fst (sendMessage w outcome)) =
           chatHistory w @ [message ''user'' (JStr (trim (chatInput_value w)))]
         \<and> snd (sendMessage ((fst (sendMessage w outcome))\<lparr>chatInput_value := s\<rparr>) outcome') =
             [[(''userMessage'', JStr (trim s)),
               (''chatHistory'',
                JArr (chatHistory w @ [message ''user'' (JStr (trim (chatInput_value w))),
                                       message ''user'' (JStr (trim s))])),
               (''prospectId'', dataset_prospectId w)]]"
  using assms by (simp add: request_sent failed_turn_fields)

text \<open>A turn answered with a status that is not \<open>ok\<close>, then a second send.\<close>

theorem failed_turn_keeps_visitor_entry_witness:
  "chatHistory (fst (sendMessage ((loaded (JStr ''p-123'') [])\<lparr>chatInput_value := ''hi''\<rparr>)
                       (FetchResponse False None))) = [message ''user'' (JStr ''hi'')]
   \<and> snd (sendMessage
            ((fst (sendMessage ((loaded (JStr ''p-123'') [])\<lparr>chatInput_value := ''hi''\<rparr>)
                     (FetchResponse False None)))\<lparr>chatInput_value := ''again''\<rparr>)
            FetchRejected) =
       [[(''userMessage'', JStr ''again''),
         (''chatHistory'', JArr [message ''user'' (JStr ''hi''), message ''user'' (JStr ''again'')]),
         (''prospectId'', JStr ''p-123'')]]"
proof -
  let ?w = "(loaded (JStr ''p-123'') [])\<lparr>chatInput_value := ''hi''\<rparr>"
  have t: "trim ''hi'' = ''hi''" "trim ''again'' = ''again''"
    by (simp_all add: trim_def js_whitespace_def)
  have "failed (FetchResponse False None)"
    and "trim (chatInput_value ?w) \<noteq> []"
    and "trim ''again'' \<noteq> []"
    by (simp_all add: t)
  from failed_turn_keeps_visitor_entry [OF this, of FetchRejected] show ?thesis
    by (simp add: t loaded_def)
qed

subsection \<open>A turn from the widget to the server\<close>

text \<open>
  The transcript the widget sends already ends with the visitor's entry, and the server
  appends the message once more: the first turn of a visitor posts three messages.
\<close>

lemma first_turn_posts_message_twice:
  "openrouter_messages (snd (chat scenario_env scenario_pool
      (hd (snd (sendMessage ((loaded (JStr ''p-123'') [])\<lparr>chatInput_value := ''hi''\<rparr>) outcome))))) =
   [[message ''system'' (JStr ''You sell widgets.''), message ''user'' (JStr ''hi''),
     message ''user'' (JStr ''hi'')]]"
proof -
  let ?w = "(loaded (JStr ''p-123'') [])\<lparr>chatInput_value := ''hi''\<rparr>"
  have t: "trim ''hi'' = ''hi''"
    by (simp add: trim_def js_whitespace_def)
  then have "trim (chatInput_value ?w) \<noteq> []"
    by (simp add: loaded_def)
  from request_sent [OF this, of outcome]
  have "hd (snd (sendMessage ?w outcome)) =
          [(''userMessage'', JStr ''hi''), (''chatHistory'', JArr [message ''user'' (JStr ''hi'')]),
           (''prospectId'', JStr ''p-123'')]"
    by (simp add: t loaded_def)
  then show ?thesis
    by (simp add: chat_def field_def select_system_prompt_def where_unique_id_def
          scenario_env_def scenario_pool_def Let_def llm_content_def message_def)
qed

section \<open>Properties of the prospect store\<close>

lemma serial_order_created: "serial_order created_table"
  by (simp add: serial_order_def created_table_def)

lemma insert_prospect_cases:
  "fst (insert_prospect e p n s u) = p
   \<or> fst (insert_prospect e p n s u) = p\<lparr>prospects_id_seq := prospects_id_seq p + 1\<rparr>
   \<or> (\<exists>n' s' u'. prepareValue e n = Some n' \<and> prepareValue e s = Some s' \<and> prepareValue e u = Some u'
        \<and> snd (insert_prospect e p n s u) = Inr ()
        \<and> fst (insert_prospect e p n s u) =
            p\<lparr>prospects_id_seq := prospects_id_seq p + 1,
              prospects := prospects p @
                [\<lparr>row_id = prospects_id_seq p + 1, name = n', system_prompt = s', unique_id = u'\<rparr>]\<rparr>)"
  by (auto simp: insert_prospect_def Let_def split: option.splits)

lemma insert_prospect_done:
  assumes "snd (insert_prospect e p n s u) = Inr x"
  shows "\<exists>n' s' u'. prepareValue e n = Some n' \<and> prepareValue e s = Some s' \<and> prepareValue e u = Some u'
        \<and> fst (insert_prospect e p n s u) =
            p\<lparr>prospects_id_seq := prospects_id_seq p + 1,
              prospects := prospects p @
                [\<lparr>row_id = prospects_id_seq p + 1, name = n', system_prompt = s', unique_id = u'\<rparr>]\<rparr>"
  using assms
  by (auto simp: insert_prospect_def Let_def split: option.splits if_splits)

lemma serial_order_insert:
  assumes "serial_order p"
  shows "serial_order (fst (insert_prospect e p n s u))"
  using insert_prospect_cases [of e p n s u] assms
  by (fastforce simp: serial_order_def sorted_append)

lemma serial_order_admin_create:
  assumes "serial_order p"
  shows "serial_order (fst (admin_create e p c b))"
proof (cases "checkAuth e c")
  case False
  with assms show ?thesis by (simp add: admin_create_def)
next
  case True
  have "fst (admin_create e p c b) =
          fst (insert_prospect e p (field b ''prospectName'') (field b ''systemPrompt'') (JStr (uuidv4 e)))"
    using True by (simp add: admin_create_def Let_def split: prod.splits sum.splits)
  with serial_order_insert [OF assms] show ?thesis by simp
qed

lemma serial_order_creations: "serial_order p \<Longrightarrow> serial_order (creations rs p)"
  by (induction rs p rule: creations.induct) (simp_all add: serial_order_admin_create)

lemma select_all_newest_first:
  assumes "serial_order p" and "\<not> query_rejected e"
  shows "select_all_prospects e p = Inr (rev (prospects p))"
  using assms by (simp add: select_all_prospects_def serial_order_def sort_key_id_if_sorted)

lemma admin_listing:
  assumes "serial_order p" and "\<not> query_rejected e" and "checkAuth e c"
  shows "admin e p c protocol host =
           (RenderAdminDashboard (rev (prospects p)) (protocol @ ''://'' @ host),
            [PoolQuery SelectAllProspects []])"
  using assms by (simp add: admin_def select_all_newest_first)

lemma admin_create_redirect:
  assumes "admin_create e p c b = (p', Redirect l, cs)"
  shows "\<exists>r. prospects p' = prospects p @ [r]
             \<and> prepareValue e (field b ''prospectName'') = Some (name r)
             \<and> prepareValue e (field b ''systemPrompt'') = Some (system_prompt r)
             \<and> unique_id r = uuidv4 e"
proof -
  let ?ins = "insert_prospect e p (field b ''prospectName'') (field b ''systemPrompt'') (JStr (uuidv4 e))"
  from assms have auth: "checkAuth e c"
    by (auto simp: admin_create_def split: if_splits)
  with assms have "snd ?ins = Inr ()" and p': "p' = fst ?ins"
    by (auto simp: admin_create_def Let_def split: prod.splits sum.splits)
  from insert_prospect_done [OF this(1)] p' show ?thesis
    by auto
qed

text \<open>
  Claim C7. After any history of creation requests on the created table, the dashboard
  of an authorised request whose query is answered lists every stored row, in the
  reverse of the order of insertion; and when two prospects are then created one
  after the other, the dashboard shows the name of the second, then the name of the
  first, then what it showed before.
\<close>

theorem dashboard_newest_first:
  assumes "checkAuth e credentials" and "\<not> query_rejected e"
      and "p = creations rs created_table"
  shows "fst (admin e p credentials protocol host) =
           RenderAdminDashboard (rev (prospects p)) (protocol @ ''://'' @ host)
         \<and> (admin_create e1 p c1 b1 = (p1, Redirect ''/admin'', cs1)
            \<and> admin_create e2 p1 c2 b2 = (p2, Redirect ''/admin'', cs2)
            \<and> field b1 ''prospectName'' = JStr n1
            \<and> field b2 ''prospectName'' = JStr n2 \<longrightarrow>
              map fst (dashboard_items (fst (admin e p2 credentials protocol host))) =
                n2 # n1 #
                map fst (dashboard_items (fst (admin e p credentials protocol host))))"
proof -
  have p: "serial_order p"
    using assms(3) serial_order_created by (simp add: serial_order_creations)
  have listing: "fst (admin e p credentials protocol host) =
           RenderAdminDashboard (rev (prospects p)) (protocol @ ''://'' @ host)"
    using admin_listing [OF p assms(2,1)] by simp
  have "map fst (dashboard_items (fst (admin e p2 credentials protocol host))) =
          n2 # n1 # map fst (dashboard_items (fst (admin e p credentials protocol host)))"
    if c1: "admin_create e1 p c1 b1 = (p1, Redirect ''/admin'', cs1)"
    and c2: "admin_create e2 p1 c2 b2 = (p2, Redirect ''/admin'', cs2)"
    and n1: "field b1 ''prospectName'' = JStr n1"
    and n2: "field b2 ''prospectName'' = JStr n2"
  proof -
    from admin_create_redirect [OF c1] n1 obtain r1
      where r1: "prospects p1 = prospects p @ [r1]" "name r1 = n1"
      by auto
    from admin_create_redirect [OF c2] n2 obtain r2
      where r2: "prospects p2 = prospects p1 @ [r2]" "name r2 = n2"
      by auto
    have "serial_order p1"
      using serial_order_admin_create [OF p, of e1 c1 b1] c1 by simp
    then have "serial_order p2"
      using serial_order_admin_create [of p1 e2 c2 b2] c2 by simp
    from admin_listing [OF this assms(2,1)] listing r1 r2 show ?thesis
      by (simp add: comp_def)
  qed
  with listing show ?thesis by blast
qed

text \<open>The scenario of the specification: \<open>Acme\<close>, then \<open>Bolt\<close>, created on the empty
  table; the dashboard shows \<open>Bolt\<close> before \<open>Acme\<close>.\<close>

theorem dashboard_newest_first_witness:
  "map fst (dashboard_items (fst (admin scenario_env
      (creations [(scenario_env, Some (''admin'', ''secret''), acme_form),
                  (scenario_env\<lparr>uuidv4 := ''7c1d2f9e''\<rparr>, Some (''admin'', ''secret''), bolt_form)]
         created_table)
      (Some (''admin'', ''secret'')) ''https'' ''demo.example''))) = [''Bolt'', ''Acme'']"
proof -
  let ?c = "Some (''admin'', ''secret'')"
  let ?e2 = "scenario_env\<lparr>uuidv4 := ''7c1d2f9e''\<rparr>"
  let ?acme = "\<lparr>row_id = 1, name = ''Acme'', system_prompt = ''You sell anvils.'',
                unique_id = ''0b0e6a3c''\<rparr>"
  let ?bolt = "\<lparr>row_id = 2, name = ''Bolt'', system_prompt = ''You sell bolts.'',
                unique_id = ''7c1d2f9e''\<rparr>"
  let ?p1 = "\<lparr>prospects = [?acme], prospects_id_seq = 1\<rparr>"
  let ?p2 = "\<lparr>prospects = [?acme, ?bolt], prospects_id_seq = 2\<rparr>"
  have h: "checkAuth scenario_env ?c" "\<not> query_rejected scenario_env"
    "created_table = creations [] created_table"
    by (simp_all add: scenario_env_def checkAuth_def)
  have first: "admin_create scenario_env created_table ?c acme_form =
      (?p1, Redirect ''/admin'',
       [PoolQuery InsertProspect [JStr ''Acme'', JStr ''You sell anvils.'', JStr ''0b0e6a3c'']])"
    by (simp add: scenario_env_def created_table_def acme_form_def checkAuth_def
          admin_create_def insert_prospect_def field_def Let_def)
  have second: "admin_create ?e2 ?p1 ?c bolt_form =
      (?p2, Redirect ''/admin'',
       [PoolQuery InsertProspect [JStr ''Bolt'', JStr ''You sell bolts.'', JStr ''7c1d2f9e'']])"
    by (simp add: scenario_env_def bolt_form_def checkAuth_def
          admin_create_def insert_prospect_def field_def Let_def)
  have names: "field acme_form ''prospectName'' = JStr ''Acme''"
    "field bolt_form ''prospectName'' = JStr ''Bolt''"
    by (simp_all add: acme_form_def bolt_form_def field_def)
  have before: "dashboard_items (fst (admin scenario_env created_table ?c ''https'' ''demo.example'')) = []"
    by (simp add: admin_def h(1,2) select_all_prospects_def created_table_def)
  have run: "creations [(scenario_env, ?c, acme_form), (?e2, ?c, bolt_form)] created_table = ?p2"
    by (simp add: first second)
  from dashboard_newest_first [OF h, where ?e1.0 = scenario_env and ?c1.0 = ?c
      and ?b1.0 = acme_form and ?p1.0 = ?p1 and ?e2.0 = ?e2 and ?c2.0 = ?c and ?b2.0 = bolt_form
      and ?p2.0 = ?p2 and ?n1.0 = "''Acme''" and ?n2.0 = "''Bolt''" and protocol = "''https''"
      and host = "''demo.example''"] first second names
  have "map fst (dashboard_items (fst (admin scenario_env ?p2 ?c ''https'' ''demo.example''))) =
          ''Bolt'' # ''Acme'' #
          map fst (dashboard_items (fst (admin scenario_env created_table ?c ''https'' ''demo.example'')))"
    by blast
  then show ?thesis
    by (simp only: run before list.map)
qed

end
